theory Spec2Isabelle
  imports Complex_Main "HOL-Library.AList"
begin

section \<open>DreamNest API: a shallow embedding of main.py\<close>

text \<open>
  The request handlers of \<^verbatim>\<open>main.py\<close> are embedded as functions over an explicit
  database state. An exception raised by a handler is a value of the type \<open>failure\<close>;
  a handler returns its result (or failure) together with the database it leaves behind.
  Requests are taken after FastAPI has parsed them into the pydantic models of
  \<^verbatim>\<open>schemas.py\<close>, so a body is a record and an absent or \<^verbatim>\<open>null\<close> optional field
  is \<open>None\<close>.
\<close>

subsection \<open>Python floats\<close>

text \<open>
  A Python float is an IEEE-754 binary64 value: a finite dyadic rational, an infinity or
  a NaN. The two zeros are identified (Python's \<^verbatim>\<open>==\<close> does not tell them apart).
\<close>

datatype pyfloat = Finite rat | PInf | NInf | NaN

definition pow2 :: "int \<Rightarrow> rat" where
  "pow2 e = (if 0 \<le> e then 2 ^ nat e else 1 / 2 ^ nat (- e))"

definition round_half_even :: "rat \<Rightarrow> int" where
  "round_half_even q =
     (let f = \<lfloor>q\<rfloor>; r = q - of_int f
      in if r < 1 / 2 then f else if 1 / 2 < r then f + 1 else if even f then f else f + 1)"

text \<open>
  The significand and exponent of a positive rational \<open>a\<close>: \<open>a = a' * 2 ^ e\<close> with
  \<open>2 ^ 52 \<le> a' < 2 ^ 53\<close>, or \<open>e = - 1074\<close> and \<open>a' < 2 ^ 52\<close> in the subnormal
  range. (\<open>2 ^ 53 = 9007199254740992\<close> and \<open>2 ^ 52 = 4503599627370496\<close>.)
\<close>

function scale_down :: "rat \<Rightarrow> int \<Rightarrow> rat \<times> int" where
  "scale_down a e = (if 9007199254740992 \<le> a then scale_down (a / 2) (e + 1) else (a, e))"
  by pat_completeness auto
termination
proof (relation "measure (\<lambda>(a, e). nat \<lfloor>a\<rfloor>)")
  show "wf (measure (\<lambda>(a::rat, e::int). nat \<lfloor>a\<rfloor>))" by simp
next
  fix a :: rat and e :: int
  assume big: "9007199254740992 \<le> a"
  have "a / 2 \<le> a - 1" using big by simp
  then have "\<lfloor>a / 2\<rfloor> \<le> \<lfloor>a - 1\<rfloor>" by (rule floor_mono)
  moreover have "1 \<le> \<lfloor>a\<rfloor>" using big by (simp add: le_floor_iff)
  ultimately show "((a / 2, e + 1), (a, e)) \<in> measure (\<lambda>(a, e). nat \<lfloor>a\<rfloor>)" by simp
qed

function scale_up :: "rat \<Rightarrow> int \<Rightarrow> rat \<times> int" where
  "scale_up a e =
     (if a < 4503599627370496 \<and> - 1074 < e then scale_up (a * 2) (e - 1) else (a, e))"
  by pat_completeness auto
termination
  by (relation "measure (\<lambda>(a, e). nat (e + 1074))") auto

text \<open>
  \<open>fl q\<close> is the binary64 value nearest to the rational \<open>q\<close>, ties to the even
  significand: the rounding that every float operation applies to its exact result.
  The result is an infinity when the rounded value reaches \<open>2 ^ 1024\<close>, that is when
  the exponent is above 971, or is 971 with the significand rounded up to \<open>2 ^ 53\<close>.
\<close>

declare scale_down.simps [simp del] scale_up.simps [simp del]

definition fl :: "rat \<Rightarrow> pyfloat" where
  "fl q =
     (if q = 0 then Finite 0
      else let (a1, e1) = scale_down \<bar>q\<bar> 0;
               (a2, e) = scale_up a1 e1;
               m = round_half_even a2
           in if 971 < e \<or> (e = 971 \<and> 9007199254740992 \<le> m)
              then (if 0 < q then PInf else NInf)
              else Finite ((if 0 < q then 1 else - 1) * of_int m * pow2 e))"

fun fadd :: "pyfloat \<Rightarrow> pyfloat \<Rightarrow> pyfloat" where
  "fadd (Finite a) (Finite b) = fl (a + b)"
| "fadd NaN _ = NaN"
| "fadd _ NaN = NaN"
| "fadd PInf NInf = NaN"
| "fadd NInf PInf = NaN"
| "fadd PInf _ = PInf"
| "fadd NInf _ = NInf"
| "fadd _ PInf = PInf"
| "fadd _ NInf = NInf"

fun fneg :: "pyfloat \<Rightarrow> pyfloat" where
  "fneg (Finite a) = Finite (- a)"
| "fneg PInf = NInf"
| "fneg NInf = PInf"
| "fneg NaN = NaN"

fun inf_times :: "pyfloat \<Rightarrow> pyfloat" where
  "inf_times (Finite a) = (if a = 0 then NaN else if 0 < a then PInf else NInf)"
| "inf_times PInf = PInf"
| "inf_times NInf = NInf"
| "inf_times NaN = NaN"

fun fmul :: "pyfloat \<Rightarrow> pyfloat \<Rightarrow> pyfloat" where
  "fmul (Finite a) (Finite b) = fl (a * b)"
| "fmul NaN _ = NaN"
| "fmul _ NaN = NaN"
| "fmul PInf y = inf_times y"
| "fmul NInf y = fneg (inf_times y)"
| "fmul x PInf = inf_times x"
| "fmul x NInf = fneg (inf_times x)"

text \<open>\<^verbatim>\<open>x / 100.0\<close>, the only division of the source.\<close>

fun div100 :: "pyfloat \<Rightarrow> pyfloat" where
  "div100 (Finite a) = fl (a / 100)"
| "div100 x = x"

text \<open>
  \<^verbatim>\<open>round(x, 2)\<close> on a float: the exact value of \<open>x\<close> is rounded to two decimal
  places, ties to the even digit, and the decimal result is read back as a float.
  Infinities and NaN are returned as they are.
\<close>

fun py_round2 :: "pyfloat \<Rightarrow> pyfloat" where
  "py_round2 (Finite a) = fl (of_int (round_half_even (a * 100)) / 100)"
| "py_round2 x = x"

text \<open>The pydantic constraint \<^verbatim>\<open>ge=0\<close> on a float: false on NaN.\<close>

fun ge0 :: "pyfloat \<Rightarrow> bool" where
  "ge0 (Finite a) = (0 \<le> a)"
| "ge0 PInf = True"
| "ge0 _ = False"

subsection \<open>Identifiers: bson.ObjectId\<close>

text \<open>
  An ObjectId is its binary value, a list of bytes. \<^verbatim>\<open>ObjectId(s)\<close> on a string
  accepts exactly the strings of length 24 that \<^verbatim>\<open>bytes.fromhex\<close> can read and
  raises \<^verbatim>\<open>InvalidId\<close> otherwise; \<^verbatim>\<open>ObjectId.is_valid(s)\<close> is false on the empty
  string and otherwise tells whether the constructor succeeds; \<^verbatim>\<open>str(oid)\<close> is
  the lower-case hexadecimal form of the bytes.
\<close>

datatype ObjectId = ObjectId "nat list"

definition hex_val :: "char \<Rightarrow> nat option" where
  "hex_val c =
     (let n = (of_char c :: nat) in
      if 48 \<le> n \<and> n \<le> 57 then Some (n - 48)
      else if 97 \<le> n \<and> n \<le> 102 then Some (n - 87)
      else if 65 \<le> n \<and> n \<le> 70 then Some (n - 55)
      else None)"

definition is_space :: "char \<Rightarrow> bool" where
  "is_space c = ((of_char c :: nat) \<in> {9, 10, 11, 12, 13, 32})"

text \<open>
  \<^verbatim>\<open>bytes.fromhex\<close>: ASCII whitespace is skipped in front of every pair of digits;
  anything else that is not a pair of hexadecimal digits raises \<^verbatim>\<open>ValueError\<close>.
\<close>

fun fromhex :: "string \<Rightarrow> nat list option" where
  "fromhex [] = Some []"
| "fromhex [c] = (if is_space c then Some [] else None)"
| "fromhex (c # d # ds) =
     (if is_space c then fromhex (d # ds)
      else (case (hex_val c, hex_val d) of
              (Some h, Some l) \<Rightarrow> map_option ((#) (16 * h + l)) (fromhex ds)
            | _ \<Rightarrow> None))"

definition ObjectId_of_str :: "string \<Rightarrow> ObjectId option" where
  "ObjectId_of_str s = (if length s = 24 then map_option ObjectId (fromhex s) else None)"

definition is_valid :: "string \<Rightarrow> bool" where
  "is_valid s = (s \<noteq> [] \<and> ObjectId_of_str s \<noteq> None)"

definition hex_digit :: "nat \<Rightarrow> char" where
  "hex_digit n = ''0123456789abcdef'' ! (n mod 16)"

definition hex_byte :: "nat \<Rightarrow> string" where
  "hex_byte b = [hex_digit (b div 16), hex_digit b]"

fun str_of_oid :: "ObjectId \<Rightarrow> string" where
  "str_of_oid (ObjectId bs) = concat (map hex_byte bs)"

subsection \<open>Documents\<close>

text \<open>
  A document is a Python dict from field names to values: an association list with
  distinct keys in insertion order. \<open>AList.update\<close> is \<^verbatim>\<open>d[k] = v\<close> (in place for a
  key that exists, at the end for a new one) and \<open>AList.delete\<close> is \<^verbatim>\<open>d.pop(k)\<close>.
\<close>

datatype val =
    VNone
  | VStr string
  | VNum pyfloat
  | VOid ObjectId
  | VDate nat
  | VList "val list"
  | VDict "(string \<times> val) list"

type_synonym doc = "(string \<times> val) list"

definition opt_str :: "string option \<Rightarrow> val" where
  "opt_str x = (case x of None \<Rightarrow> VNone | Some s \<Rightarrow> VStr s)"

subsection \<open>The database: pymongo collections\<close>

text \<open>
  The handle \<^verbatim>\<open>db\<close> is a connected database: named collections, each the list of
  its documents in insertion order. A collection that was never written is empty.
  \<open>next_id\<close> is the driver's ObjectId generator and \<open>clock\<close> the time of day.
\<close>

record database =
  collections :: "(string \<times> doc list) list"
  next_id :: nat
  clock :: nat

definition coll :: "database \<Rightarrow> string \<Rightarrow> doc list" where
  "coll db name = (case map_of (collections db) name of None \<Rightarrow> [] | Some ds \<Rightarrow> ds)"

definition set_coll :: "database \<Rightarrow> string \<Rightarrow> doc list \<Rightarrow> database" where
  "set_coll db name ds = db\<lparr>collections := AList.update name ds (collections db)\<rparr>"

text \<open>
  The query filters the handlers build. A field matches a value when it equals it or is
  an array that contains it; a missing field matches only \<^verbatim>\<open>None\<close>.
\<close>

datatype filter = FAll | FEq string val | FOr "filter list"

fun matches :: "filter \<Rightarrow> doc \<Rightarrow> bool" where
  "matches FAll d = True"
| "matches (FEq k v) d =
     (case map_of d k of
        None \<Rightarrow> v = VNone
      | Some w \<Rightarrow> w = v \<or> (case w of VList xs \<Rightarrow> v \<in> set xs | _ \<Rightarrow> False))"
| "matches (FOr fs) d = (\<exists>f \<in> set fs. matches f d)"

definition find_one :: "database \<Rightarrow> string \<Rightarrow> filter \<Rightarrow> doc option" where
  "find_one db name f = List.find (matches f) (coll db name)"

definition created_key :: "doc \<Rightarrow> nat" where
  "created_key d = (case map_of d ''created_at'' of Some (VDate t) \<Rightarrow> Suc t | _ \<Rightarrow> 0)"

text \<open>\<^verbatim>\<open>find(filt).sort("created_at", -1)\<close>: the matching documents, newest first.\<close>

definition find_sorted :: "database \<Rightarrow> string \<Rightarrow> filter \<Rightarrow> doc list" where
  "find_sorted db name f = rev (sort_key created_key (filter (matches f) (coll db name)))"

text \<open>
  The update operators the handlers use. \<^verbatim>\<open>$push\<close> creates the array when the
  field is missing and is a write error when the field holds something else.
\<close>

datatype update_op = USet "(string \<times> val) list" | UPush string val

fun apply_update :: "update_op \<Rightarrow> doc \<Rightarrow> doc option" where
  "apply_update (USet kvs) d = Some (fold (\<lambda>(k, v). AList.update k v) kvs d)"
| "apply_update (UPush k v) d =
     (case map_of d k of
        None \<Rightarrow> Some (AList.update k (VList [v]) d)
      | Some (VList xs) \<Rightarrow> Some (AList.update k (VList (xs @ [v])) d)
      | Some _ \<Rightarrow> None)"

text \<open>
  \<^verbatim>\<open>update_one\<close> changes the first document that matches, and reports how many it
  matched (0 or 1); nothing is written when none matches. \<open>None\<close> is a write error
  raised by the server.
\<close>

fun update_first :: "filter \<Rightarrow> update_op \<Rightarrow> doc list \<Rightarrow> (nat \<times> doc list) option" where
  "update_first f u [] = Some (0, [])"
| "update_first f u (d # ds) =
     (if matches f d then map_option (\<lambda>d'. (1, d' # ds)) (apply_update u d)
      else map_option (\<lambda>(n, ds'). (n, d # ds')) (update_first f u ds))"

definition update_one ::
  "database \<Rightarrow> string \<Rightarrow> filter \<Rightarrow> update_op \<Rightarrow> (nat \<times> database) option" where
  "update_one db name f u =
     map_option (\<lambda>(n, ds). (n, if n = 0 then db else set_coll db name ds))
       (update_first f u (coll db name))"

text \<open>The identifier the driver generates from its counter: twelve bytes, big-endian.\<close>

fun be_bytes :: "nat \<Rightarrow> nat \<Rightarrow> nat list" where
  "be_bytes 0 n = []"
| "be_bytes (Suc k) n = be_bytes k (n div 256) @ [n mod 256]"

definition new_oid :: "nat \<Rightarrow> ObjectId" where
  "new_oid n = ObjectId (be_bytes 12 n)"

text \<open>
  Modelled from the spec: \<^verbatim>\<open>create_document\<close> of \<^verbatim>\<open>database.py\<close>, which is not
  part of the sources at hand. It inserts one validated record into the named collection
  and returns the generated identifier in its string form. The record is stored under a
  fresh \<^verbatim>\<open>_id\<close> with its creation time, the field the handlers sort on.
\<close>

definition create_document :: "database \<Rightarrow> string \<Rightarrow> doc \<Rightarrow> string \<times> database" where
  "create_document db name data =
     (let oid = new_oid (next_id db);
          d = AList.update ''_id'' (VOid oid) (AList.update ''created_at'' (VDate (clock db)) data)
      in (str_of_oid oid,
          (set_coll db name (coll db name @ [d]))\<lparr>next_id := next_id db + 1, clock := clock db + 1\<rparr>))"


subsection \<open>Failures\<close>

text \<open>
  \<open>HTTPException\<close> is the exception the handlers raise on purpose, with its status code
  and detail. \<open>Unhandled\<close> is any other exception that leaves a handler, which the
  framework answers with status 500.
\<close>

datatype failure = HTTPException nat string | Unhandled string

fun status_code :: "failure \<Rightarrow> nat" where
  "status_code (HTTPException c _) = c"
| "status_code (Unhandled _) = 500"

subsection \<open>Catalog records\<close>


record Community =
  name :: string
  city :: string
  starting_price :: "pyfloat option"
  image_url :: "string option"
  amenities_images :: "string list"



record Tower =
  name :: string
  community_id :: string
  images :: "string list"
  pdfs :: "string list"



record Flat =
  number :: string
  tower_id :: string
  bhk_type :: string
  status :: string
  images :: "string list"



record FloorPlan =
  bhk_type :: string
  image_url :: "string option"
  pdf_url :: "string option"
  carpet_area :: "pyfloat option"
  uds_area :: "pyfloat option"



subsection \<open>Follow-ups\<close>

record FollowUp =
  lead_id :: string
  notes' :: string
  next_date :: "string option"
  followup_type :: string
  agent_id :: "string option"

definition dump_FollowUp :: "FollowUp \<Rightarrow> doc" where
  "dump_FollowUp p =
     [(''lead_id'', VStr (lead_id p)), (''notes'', VStr (notes' p)),
      (''next_date'', opt_str (next_date p)), (''type'', VStr (followup_type p)),
      (''agent_id'', opt_str (agent_id p))]"

definition create_followup :: "database \<Rightarrow> FollowUp \<Rightarrow> (failure + string) \<times> database" where
  "create_followup db payload =
     (if \<not> is_valid (lead_id payload) then (Inl (HTTPException 400 ''Invalid lead id''), db)
      else case ObjectId_of_str (lead_id payload) of
        None \<Rightarrow> (Inl (Unhandled ''InvalidId''), db)
      | Some oid \<Rightarrow>
         (case find_one db ''lead'' (FEq ''_id'' (VOid oid)) of
            None \<Rightarrow> (Inl (HTTPException 404 ''Lead not found''), db)
          | Some exists \<Rightarrow>
              (if exists = [] then (Inl (HTTPException 404 ''Lead not found''), db)
               else let (new_id, db1) = create_document db ''followup'' (dump_FollowUp payload)
                    in (case update_one db1 ''lead'' (FEq ''_id'' (VOid oid))
                               (UPush ''follow_up_ids'' (VStr new_id)) of
                          None \<Rightarrow> (Inl (Unhandled ''WriteError''), db1)
                        | Some (n, db2) \<Rightarrow> (Inr new_id, db2)))))"

subsection \<open>Leads\<close>

record LeadRequest =
  name :: string
  phone :: string
  email :: "string option"
  project_id :: "string option"
  requirement_type :: "string option"
  source :: "string option"

record Lead =
  name :: string
  phone :: string
  email :: "string option"
  assigned_agent_id :: "string option"
  assigned_manager_id :: "string option"
  requirement_type :: "string option"
  source :: "string option"
  status :: string
  follow_up_ids :: "string list"

definition dump_Lead :: "Lead \<Rightarrow> doc" where
  "dump_Lead l =
     [(''name'', VStr (Lead.name l)), (''phone'', VStr (Lead.phone l)),
      (''email'', opt_str (Lead.email l)),
      (''assigned_agent_id'', opt_str (Lead.assigned_agent_id l)),
      (''assigned_manager_id'', opt_str (Lead.assigned_manager_id l)),
      (''requirement_type'', opt_str (Lead.requirement_type l)),
      (''source'', opt_str (Lead.source l)),
      (''status'', VStr (Lead.status l)),
      (''follow_up_ids'', VList (map VStr (Lead.follow_up_ids l)))]"

text \<open>\<^verbatim>\<open>x or default\<close> on an optional string: \<open>None\<close> and the empty string are false.\<close>

definition or_default :: "string option \<Rightarrow> string \<Rightarrow> string" where
  "or_default x dflt = (case x of None \<Rightarrow> dflt | Some s \<Rightarrow> if s = [] then dflt else s)"

definition create_lead :: "database \<Rightarrow> LeadRequest \<Rightarrow> (string \<times> string) \<times> database" where
  "create_lead db payload =
     (let lead = \<lparr>Lead.name = LeadRequest.name payload,
                  phone = LeadRequest.phone payload,
                  email = LeadRequest.email payload,
                  assigned_agent_id = None,
                  assigned_manager_id = None,
                  requirement_type = Some (or_default (LeadRequest.requirement_type payload) ''Interior''),
                  source = Some (or_default (LeadRequest.source payload) ''web''),
                  status = ''New'',
                  follow_up_ids = []\<rparr>;
          (new_id, db') = create_document db ''lead'' (dump_Lead lead)
      in ((new_id, ''New''), db'))"

record LeadUpdate =
  status :: "string option"
  assigned_agent_id :: "string option"
  assigned_manager_id :: "string option"

text \<open>\<^verbatim>\<open>model_dump(exclude_none=True)\<close>: the fields that are not \<open>None\<close>, in order.\<close>

definition dump_LeadUpdate :: "LeadUpdate \<Rightarrow> doc" where
  "dump_LeadUpdate p =
     (case LeadUpdate.status p of None \<Rightarrow> [] | Some v \<Rightarrow> [(''status'', VStr v)]) @
     (case LeadUpdate.assigned_agent_id p of None \<Rightarrow> [] | Some v \<Rightarrow> [(''assigned_agent_id'', VStr v)]) @
     (case LeadUpdate.assigned_manager_id p of None \<Rightarrow> [] | Some v \<Rightarrow> [(''assigned_manager_id'', VStr v)])"

definition update_lead ::
  "database \<Rightarrow> string \<Rightarrow> LeadUpdate \<Rightarrow> (failure + bool) \<times> database" where
  "update_lead db lead_id' payload =
     (if \<not> is_valid lead_id' then (Inl (HTTPException 400 ''Invalid lead id''), db)
      else let update_doc = dump_LeadUpdate payload
           in if update_doc = [] then (Inr False, db)
              else case ObjectId_of_str lead_id' of
                None \<Rightarrow> (Inl (Unhandled ''InvalidId''), db)
              | Some oid \<Rightarrow>
                 (case update_one db ''lead'' (FEq ''_id'' (VOid oid)) (USet update_doc) of
                    None \<Rightarrow> (Inl (Unhandled ''WriteError''), db)
                  | Some (matched_count, db') \<Rightarrow>
                      if matched_count = 0 then (Inl (HTTPException 404 ''Lead not found''), db')
                      else (Inr True, db')))"

subsection \<open>Serialisation of documents\<close>

text \<open>
  Python's \<^verbatim>\<open>str\<close>: the hexadecimal form of an ObjectId, a string as it is,
  \<^verbatim>\<open>None\<close> as its name. How Python prints the remaining values (floats, dates,
  lists, dicts) is not modelled: \<open>str_other\<close> stands for it.
\<close>

fun py_str :: "(val \<Rightarrow> string) \<Rightarrow> val \<Rightarrow> string" where
  "py_str str_other (VOid oid) = str_of_oid oid"
| "py_str str_other (VStr s) = s"
| "py_str str_other VNone = ''None''"
| "py_str str_other v = str_other v"

text \<open>One element of the list comprehension: \<^verbatim>\<open>str(x) if isinstance(x, ObjectId) else x\<close>.\<close>

fun str_if_oid :: "val \<Rightarrow> val" where
  "str_if_oid (VOid oid) = VStr (str_of_oid oid)"
| "str_if_oid x = x"

text \<open>One round of the loop over the items: the two \<^verbatim>\<open>if\<close>s on the value \<open>v\<close>.\<close>

definition ser_step :: "string \<times> val \<Rightarrow> doc \<Rightarrow> doc" where
  "ser_step kv doc =
     (let k = fst kv; v = snd kv;
          doc1 = (case v of VOid oid \<Rightarrow> AList.update k (VStr (str_of_oid oid)) doc | _ \<Rightarrow> doc)
      in case v of VList xs \<Rightarrow> AList.update k (VList (map str_if_oid xs)) doc1 | _ \<Rightarrow> doc1)"

definition to_serializable :: "(val \<Rightarrow> string) \<Rightarrow> doc \<Rightarrow> doc" where
  "to_serializable str_other doc =
     (if doc = [] then doc
      else let doc1 = (case map_of doc ''_id'' of
                         None \<Rightarrow> doc
                       | Some i \<Rightarrow> AList.update ''id'' (VStr (py_str str_other i))
                                     (AList.delete ''_id'' doc))
           in fold ser_step doc1 doc1)"


text \<open>A value is, or holds at any depth, an ObjectId.\<close>

fun has_oid :: "val \<Rightarrow> bool" where
  "has_oid (VOid oid) = True"
| "has_oid (VList xs) = (\<exists>x \<in> set xs. has_oid x)"
| "has_oid (VDict kvs) = (\<exists>v \<in> snd ` set kvs. has_oid v)"
| "has_oid v = False"



subsection \<open>Catalog\<close>



subsection \<open>Reading leads and follow-ups\<close>

definition list_leads :: "(val \<Rightarrow> string) \<Rightarrow> database \<Rightarrow> string option \<Rightarrow> failure + doc list" where
  "list_leads str_other db assigned_to =
     (let filt = (case assigned_to of
                    None \<Rightarrow> FAll
                  | Some a \<Rightarrow> if a = [] then FAll
                              else FOr [FEq ''assigned_agent_id'' (VStr a),
                                        FEq ''assigned_manager_id'' (VStr a)])
      in Inr (map (to_serializable str_other) (find_sorted db ''lead'' filt)))"

definition list_followups :: "(val \<Rightarrow> string) \<Rightarrow> database \<Rightarrow> string \<Rightarrow> failure + doc list" where
  "list_followups str_other db lead_id' =
     (if \<not> is_valid lead_id' then Inl (HTTPException 400 ''Invalid lead id'')
      else Inr (map (to_serializable str_other)
                  (find_sorted db ''followup'' (FEq ''lead_id'' (VStr lead_id')))))"

subsection \<open>Quotations\<close>

record QuotationInputs =
  area :: pyfloat
  rate_per_sqft :: pyfloat
  material_cost :: pyfloat
  gst_percent :: pyfloat
  markup_percent :: pyfloat

text \<open>The constraints of the schema: each of the five fields is \<^verbatim>\<open>ge=0\<close>.\<close>

definition valid_inputs :: "QuotationInputs \<Rightarrow> bool" where
  "valid_inputs i =
     (ge0 (area i) \<and> ge0 (rate_per_sqft i) \<and> ge0 (material_cost i) \<and>
      ge0 (gst_percent i) \<and> ge0 (markup_percent i))"

record quote =
  subtotal :: pyfloat
  gst :: pyfloat
  markup :: pyfloat
  total :: pyfloat

definition compute_quote :: "QuotationInputs \<Rightarrow> quote" where
  "compute_quote inputs =
     (let subtotal = fadd (fmul (area inputs) (rate_per_sqft inputs)) (material_cost inputs);
          gst = fmul subtotal (div100 (gst_percent inputs));
          total_with_gst = fadd subtotal gst;
          markup = fmul total_with_gst (div100 (markup_percent inputs));
          grand_total = py_round2 (fadd total_with_gst markup)
      in \<lparr>subtotal = py_round2 subtotal, gst = py_round2 gst,
          markup = py_round2 markup, total = grand_total\<rparr>)"

text \<open>
  The reading of the calculation in which every stage is rounded to two decimals before
  the next stage is computed from it. It is not what \<open>compute_quote\<close> does; it is
  here to be compared with it.
\<close>

definition compute_quote_staged :: "QuotationInputs \<Rightarrow> quote" where
  "compute_quote_staged inputs =
     (let subtotal = py_round2 (fadd (fmul (area inputs) (rate_per_sqft inputs))
                                     (material_cost inputs));
          gst = py_round2 (fmul subtotal (div100 (gst_percent inputs)));
          total_with_gst = py_round2 (fadd subtotal gst);
          markup = py_round2 (fmul total_with_gst (div100 (markup_percent inputs)));
          grand_total = py_round2 (fadd total_with_gst markup)
      in \<lparr>subtotal = subtotal, gst = gst, markup = markup, total = grand_total\<rparr>)"

text \<open>
  The closed form \<^verbatim>\<open>(area*rate + material_cost) * (1 + gst/100) * (1 + markup/100)\<close>,
  computed with floats.
\<close>

definition product_form :: "QuotationInputs \<Rightarrow> pyfloat" where
  "product_form inputs =
     fmul (fmul (fadd (fmul (area inputs) (rate_per_sqft inputs)) (material_cost inputs))
                (fadd (Finite 1) (div100 (gst_percent inputs))))
          (fadd (Finite 1) (div100 (markup_percent inputs)))"

text \<open>A rational that is a float: rounding leaves it as it is.\<close>

definition representable :: "rat \<Rightarrow> bool" where
  "representable q = (fl q = Finite q)"

text \<open>
  A float that \<^verbatim>\<open>round(x, 2)\<close> can return: the float nearest to a decimal with two
  places, or a value that is not finite.
\<close>

definition two_decimals :: "pyfloat \<Rightarrow> bool" where
  "two_decimals x = (case x of Finite a \<Rightarrow> (\<exists>k::int. x = fl (of_int k / 100)) | _ \<Rightarrow> True)"

text \<open>
  \<open>close_to n x' x\<close>: the value \<open>x'\<close> lies within \<open>n\<close> float roundings of the
  non-negative \<open>x\<close>, each rounding a relative error of at most \<open>2 ^ - 53\<close>
  (\<open>2 ^ 53 = 9007199254740992\<close>).
\<close>

definition close_to :: "nat \<Rightarrow> rat \<Rightarrow> rat \<Rightarrow> bool" where
  "close_to n x' x =
     (x * (1 - 1 / 9007199254740992) ^ n \<le> x' \<and> x' \<le> x * (1 + 1 / 9007199254740992) ^ n)"

text \<open>An amount that is zero or not below \<open>l\<close>.\<close>

definition zero_or_above :: "rat \<Rightarrow> rat \<Rightarrow> bool" where
  "zero_or_above l x = (x = 0 \<or> l \<le> x)"

record QuotationCreate =
  lead_id :: string
  project_id :: "string option"
  inputs :: QuotationInputs
  created_by :: "string option"

record Quotation =
  lead_id :: string
  project_id :: "string option"
  pricing_inputs :: QuotationInputs
  generated_price :: pyfloat
  pdf_url :: "string option"
  created_by :: "string option"

definition dump_QuotationInputs :: "QuotationInputs \<Rightarrow> doc" where
  "dump_QuotationInputs i =
     [(''area'', VNum (area i)), (''rate_per_sqft'', VNum (rate_per_sqft i)),
      (''material_cost'', VNum (material_cost i)), (''gst_percent'', VNum (gst_percent i)),
      (''markup_percent'', VNum (markup_percent i))]"

definition dump_Quotation :: "Quotation \<Rightarrow> doc" where
  "dump_Quotation q =
     [(''lead_id'', VStr (Quotation.lead_id q)),
      (''project_id'', opt_str (Quotation.project_id q)),
      (''pricing_inputs'', VDict (dump_QuotationInputs (pricing_inputs q))),
      (''generated_price'', VNum (generated_price q)),
      (''pdf_url'', opt_str (pdf_url q)),
      (''created_by'', opt_str (Quotation.created_by q))]"

text \<open>
  Building the \<^verbatim>\<open>Quotation\<close> model validates \<^verbatim>\<open>generated_price\<close> against
  \<^verbatim>\<open>ge=0\<close>; a failure there is a pydantic error that the handler does not catch.
\<close>

definition create_quote ::
  "database \<Rightarrow> QuotationCreate \<Rightarrow> (failure + string \<times> pyfloat) \<times> database" where
  "create_quote db payload =
     (if \<not> is_valid (QuotationCreate.lead_id payload)
      then (Inl (HTTPException 400 ''Invalid lead id''), db)
      else let res = compute_quote (inputs payload)
           in if \<not> ge0 (total res) then (Inl (Unhandled ''ValidationError''), db)
              else let quotation = \<lparr>Quotation.lead_id = QuotationCreate.lead_id payload,
                                     project_id = QuotationCreate.project_id payload,
                                     pricing_inputs = inputs payload,
                                     generated_price = total res,
                                     pdf_url = None,
                                     created_by = QuotationCreate.created_by payload\<rparr>;
                       (new_id, db') = create_document db ''quotation'' (dump_Quotation quotation)
                   in (Inr (new_id, total res), db'))"

definition quotes_by_lead :: "(val \<Rightarrow> string) \<Rightarrow> database \<Rightarrow> string \<Rightarrow> failure + doc list" where
  "quotes_by_lead str_other db lead_id' =
     (if \<not> is_valid lead_id' then Inl (HTTPException 400 ''Invalid lead id'')
      else Inr (map (to_serializable str_other)
                  (find_sorted db ''quotation'' (FEq ''lead_id'' (VStr lead_id')))))"

subsection \<open>The stores the API writes\<close>


text \<open>
  A record as the schemas store it: its keys are distinct, its \<^verbatim>\<open>_id\<close> is an
  ObjectId, and no other value is or holds an ObjectId, at any depth.
\<close>

definition api_record :: "doc \<Rightarrow> bool" where
  "api_record d =
     (distinct (map fst d) \<and>
      (case map_of d ''_id'' of Some (VOid oid) \<Rightarrow> True | _ \<Rightarrow> False) \<and>
      (\<forall>kv \<in> set d. fst kv = ''_id'' \<or> \<not> has_oid (snd kv)))"

definition api_store :: "database \<Rightarrow> bool" where
  "api_store db = (\<forall>c \<in> set (collections db). \<forall>d \<in> set (snd c). api_record d)"



subsection \<open>Example data\<close>

text \<open>
  A database that holds one lead, created through \<open>create_lead\<close>; its identifier is
  \<open>lead1\<close>. No lead has the identifier \<open>lead2\<close>, and \<open>''agent-7''\<close> is not the
  text of an ObjectId.
\<close>

definition empty_db :: database where
  "empty_db = \<lparr>collections = [], next_id = 1, clock = 0\<rparr>"

definition example_db :: database where
  "example_db =
     snd (create_lead empty_db
            \<lparr>LeadRequest.name = ''Asha'', phone = ''5550100'', email = None,
             project_id = None, requirement_type = None, source = None\<rparr>)"

definition lead1 :: string where
  "lead1 = ''000000000000000000000001''"

definition lead2 :: string where
  "lead2 = ''000000000000000000000002''"

text \<open>The lead of \<open>example_db\<close>, as it is stored.\<close>

definition example_lead :: doc where
  "example_lead =
     [(''name'', VStr ''Asha''), (''phone'', VStr ''5550100''), (''email'', VNone),
      (''assigned_agent_id'', VNone), (''assigned_manager_id'', VNone),
      (''requirement_type'', VStr ''Interior''), (''source'', VStr ''web''),
      (''status'', VStr ''New''), (''follow_up_ids'', VList []),
      (''created_at'', VDate 0), (''_id'', VOid (new_oid 1))]"

definition example_followup :: "string \<Rightarrow> FollowUp" where
  "example_followup l =
     \<lparr>FollowUp.lead_id = l, notes' = ''call back'', next_date = None,
      followup_type = ''call'', agent_id = None\<rparr>"

text \<open>
  The same database after the lead was assigned to the agent \<open>''agent-7''\<close>, and a
  quotation request for the identifier \<open>lead9\<close>, which no lead has.
\<close>

definition assigned_db :: database where
  "assigned_db =
     snd (update_lead example_db lead1
            \<lparr>LeadUpdate.status = None, assigned_agent_id = Some ''agent-7'',
             assigned_manager_id = None\<rparr>)"

definition lead9 :: string where
  "lead9 = ''000000000000000000000009''"

definition quote_request :: "QuotationInputs \<Rightarrow> QuotationCreate" where
  "quote_request i =
     \<lparr>QuotationCreate.lead_id = lead9, project_id = None, inputs = i, created_by = None\<rparr>"

text \<open>
  A document that no endpoint writes, with ObjectIds below the first level: in a
  sub-document, and in a list inside a list.
\<close>

definition nested_doc :: doc where
  "nested_doc =
     [(''_id'', VOid (new_oid 1)),
      (''owner'', VDict [(''ref'', VOid (new_oid 2))]),
      (''history'', VList [VList [VOid (new_oid 3)]])]"

text \<open>Two bodies of a lead update: one without fields, one that sets the status.\<close>

definition no_update :: LeadUpdate where
  "no_update = \<lparr>LeadUpdate.status = None, assigned_agent_id = None, assigned_manager_id = None\<rparr>"

definition status_update :: LeadUpdate where
  "status_update =
     \<lparr>LeadUpdate.status = Some ''Contacted'', assigned_agent_id = None,
      assigned_manager_id = None\<rparr>"

text \<open>Inputs of the calculation: the example of the specification, and three others.\<close>

definition inputs_spec :: QuotationInputs where
  "inputs_spec = \<lparr>area = Finite 1000, rate_per_sqft = Finite 1500,
     material_cost = Finite 50000, gst_percent = Finite 18, markup_percent = Finite 10\<rparr>"

definition inputs_small :: QuotationInputs where
  "inputs_small = \<lparr>area = Finite 1, rate_per_sqft = Finite (1 / 256),
     material_cost = Finite 0, gst_percent = Finite 100, markup_percent = Finite 0\<rparr>"

definition inputs_tie :: QuotationInputs where
  "inputs_tie = \<lparr>area = Finite 5, rate_per_sqft = Finite 1,
     material_cost = Finite 0, gst_percent = Finite 1, markup_percent = Finite 10\<rparr>"

definition inputs_exact :: QuotationInputs where
  "inputs_exact = \<lparr>area = Finite 1000, rate_per_sqft = Finite 1500,
     material_cost = Finite 50000, gst_percent = Finite 25, markup_percent = Finite 50\<rparr>"





section \<open>Properties\<close>

subsection \<open>The quotation calculator\<close>

lemma floor_rat_numeral: "\<lfloor>(numeral a :: rat) / numeral b\<rfloor> = numeral a div numeral b"
  by (metis floor_divide_of_int_eq of_int_numeral)

lemmas fl_eval = fl_def scale_up.simps scale_down.simps round_half_even_def pow2_def Let_def
  floor_rat_numeral

text \<open>
  C7. On the example of the specification (area 1000, rate 1500, material cost 50000,
  GST 18, markup 10) \<open>compute_quote\<close> returns subtotal 1550000.00, gst 279000.00,
  markup 182900.00 and total 2011900.00, with every float operation rounded as Python
  rounds it.
\<close>

theorem compute_quote_spec_example:
  "compute_quote inputs_spec =
     \<lparr>subtotal = Finite 1550000, gst = Finite 279000,
      markup = Finite 182900, total = Finite 2011900\<rparr> \<and>
   (let subtotal = fadd (fmul (area inputs_spec) (rate_per_sqft inputs_spec))
                        (material_cost inputs_spec);
        gst = fmul subtotal (div100 (gst_percent inputs_spec))
    in fadd subtotal gst) = Finite 1829000"
  by (simp add: inputs_spec_def compute_quote_def fl_eval)

text \<open>
  C3, as stated, fails: the later stages are not computed from the rounded earlier ones.
  For area 1, rate 1/256, no material cost, GST 100 and markup 0, every float operation
  is exact; the code adds the unrounded subtotal and gst, 0.00390625 each, and returns the
  total 0.01, while the stage-by-stage rounding returns 0.
\<close>

theorem compute_quote_not_staged:
  "valid_inputs inputs_small \<and>
   total (compute_quote inputs_small) = fl (1 / 100) \<and>
   total (compute_quote_staged inputs_small) = Finite 0 \<and>
   fl (1 / 100) \<noteq> Finite 0"
  by (simp add: inputs_small_def valid_inputs_def compute_quote_def compute_quote_staged_def fl_eval)

lemma two_decimals_py_round2: "two_decimals (py_round2 x)"
proof (cases x)
  case (Finite a)
  show ?thesis
  proof (cases "fl (of_int (round_half_even (a * 100)) / 100)")
    case (Finite b)
    then have "\<exists>k::int. Finite b = fl (of_int k / 100)"
      by (intro exI [of _ "round_half_even (a * 100)"]) simp
    then show ?thesis
      using Finite \<open>x = Finite a\<close> by (simp add: two_decimals_def)
  qed (simp_all add: two_decimals_def \<open>x = Finite a\<close>)
qed (simp_all add: two_decimals_def)

text \<open>
  C3, amended. \<open>compute_quote\<close> computes subtotal, gst, total_with_gst and markup one
  after the other from the unrounded values of the earlier stages, and rounds only what
  it returns: subtotal, gst, markup and the grand total are each \<^verbatim>\<open>round(x, 2)\<close> of
  the unrounded stage. The stage total_with_gst is not returned.
\<close>

theorem compute_quote_rounds_outputs:
  "(let s = fadd (fmul (area i) (rate_per_sqft i)) (material_cost i);
        g = fmul s (div100 (gst_percent i));
        t = fadd s g;
        m = fmul t (div100 (markup_percent i))
    in compute_quote i =
         \<lparr>subtotal = py_round2 s, gst = py_round2 g,
          markup = py_round2 m, total = py_round2 (fadd t m)\<rparr>) \<and>
   two_decimals (subtotal (compute_quote i)) \<and> two_decimals (gst (compute_quote i)) \<and>
   two_decimals (markup (compute_quote i)) \<and> two_decimals (total (compute_quote i))"
  by (simp add: compute_quote_def Let_def two_decimals_py_round2)

text \<open>
  C8, as stated, fails: for area 5, rate 1, no material cost, GST 1 and markup 10 the
  product is 5.555. The code returns the total 5.55, because the float sum of its stages
  lies just below 5.555; the product form rounds to 5.56.
\<close>

theorem compute_quote_not_product:
  "valid_inputs inputs_tie \<and>
   total (compute_quote inputs_tie) = fl (555 / 100) \<and>
   py_round2 (product_form inputs_tie) = fl (556 / 100) \<and>
   fl (555 / 100) \<noteq> fl (556 / 100)"
  by (simp add: inputs_tie_def valid_inputs_def compute_quote_def product_form_def fl_eval)

text \<open>
  A special case in which the two agree: when none of the float operations of
  \<open>compute_quote\<close> has to round, that is when every intermediate result is a float,
  the total is the product rounded to two decimals.
\<close>

theorem compute_quote_product_when_exact:
  assumes "area i = Finite a" and "rate_per_sqft i = Finite r"
    and "material_cost i = Finite m" and "gst_percent i = Finite g"
    and "markup_percent i = Finite k"
    and "representable (a * r)" and "representable (a * r + m)"
    and "representable (g / 100)" and "representable ((a * r + m) * (g / 100))"
    and "representable (a * r + m + (a * r + m) * (g / 100))"
    and "representable (k / 100)"
    and "representable ((a * r + m + (a * r + m) * (g / 100)) * (k / 100))"
    and "representable (a * r + m + (a * r + m) * (g / 100) +
                         (a * r + m + (a * r + m) * (g / 100)) * (k / 100))"
  shows "total (compute_quote i) =
           py_round2 (Finite ((a * r + m) * (1 + g / 100) * (1 + k / 100)))"
proof -
  have eq: "(a * r + m) * (1 + g / 100) * (1 + k / 100) =
            a * r + m + (a * r + m) * (g / 100) +
              (a * r + m + (a * r + m) * (g / 100)) * (k / 100)"
    by (simp add: field_simps)
  show ?thesis
    using assms unfolding representable_def eq
    by (simp add: compute_quote_def Let_def)
qed

theorem compute_quote_product_when_exact_witness:
  "representable (1000 * 1500) \<and> representable (1000 * 1500 + 50000) \<and>
   representable (25 / 100) \<and> representable ((1000 * 1500 + 50000) * (25 / 100)) \<and>
   representable (1000 * 1500 + 50000 + (1000 * 1500 + 50000) * (25 / 100)) \<and>
   representable (50 / 100) \<and>
   representable ((1000 * 1500 + 50000 + (1000 * 1500 + 50000) * (25 / 100)) * (50 / 100)) \<and>
   representable (1000 * 1500 + 50000 + (1000 * 1500 + 50000) * (25 / 100) +
                  (1000 * 1500 + 50000 + (1000 * 1500 + 50000) * (25 / 100)) * (50 / 100)) \<and>
   total (compute_quote inputs_exact) = Finite 2906250"
proof -
  have r1: "representable (1000 * 1500)" by (simp add: representable_def fl_eval)
  have r2: "representable (1000 * 1500 + 50000)" by (simp add: representable_def fl_eval)
  have r3: "representable (25 / 100)" by (simp add: representable_def fl_eval)
  have r4: "representable ((1000 * 1500 + 50000) * (25 / 100))"
    by (simp add: representable_def fl_eval)
  have r5: "representable (1000 * 1500 + 50000 + (1000 * 1500 + 50000) * (25 / 100))"
    by (simp add: representable_def fl_eval)
  have r6: "representable (50 / 100)" by (simp add: representable_def fl_eval)
  have r7: "representable ((1000 * 1500 + 50000 + (1000 * 1500 + 50000) * (25 / 100)) * (50 / 100))"
    by (simp add: representable_def fl_eval)
  have r8: "representable (1000 * 1500 + 50000 + (1000 * 1500 + 50000) * (25 / 100) +
                  (1000 * 1500 + 50000 + (1000 * 1500 + 50000) * (25 / 100)) * (50 / 100))"
    by (simp add: representable_def fl_eval)
  have p: "py_round2 (Finite ((1000 * 1500 + 50000) * (1 + 25 / 100) * (1 + 50 / 100))) =
           Finite 2906250"
    by (simp add: fl_eval)
  have "total (compute_quote inputs_exact) =
          py_round2 (Finite ((1000 * 1500 + 50000) * (1 + 25 / 100) * (1 + 50 / 100)))"
    by (rule compute_quote_product_when_exact [OF _ _ _ _ _ r1 r2 r3 r4 r5 r6 r7 r8])
       (simp_all add: inputs_exact_def)
  with p r1 r2 r3 r4 r5 r6 r7 r8 show ?thesis by simp
qed


subsection \<open>The float error of the calculation\<close>

lemma pow2_powi: "pow2 e = 2 powi e"
  by (simp add: pow2_def power_int_def inverse_eq_divide power_one_over)

lemma pow2_pos: "0 < pow2 e"
  by (simp add: pow2_def)

lemma pow2_succ: "pow2 (e + 1) = 2 * pow2 e"
  by (simp add: pow2_powi power_int_add)

lemma pow2_pred: "pow2 (e - 1) = pow2 e / 2"
  using pow2_succ [of "e - 1"] by simp

lemma scale_down_inv:
  "0 < a \<Longrightarrow> scale_down a e = (a', e') \<Longrightarrow>
   a' * pow2 e' = a * pow2 e \<and> 0 < a' \<and> a' < 9007199254740992 \<and> e \<le> e'"
proof (induction a e rule: scale_down.induct)
  case (1 a e)
  show ?case
  proof (cases "9007199254740992 \<le> a")
    case True
    then have "scale_down (a / 2) (e + 1) = (a', e')"
      using "1.prems"(2) by (subst (asm) scale_down.simps) simp
    moreover have "0 < a / 2" using "1.prems"(1) by simp
    ultimately have "a' * pow2 e' = a / 2 * pow2 (e + 1) \<and> 0 < a' \<and>
        a' < 9007199254740992 \<and> e + 1 \<le> e'"
      using "1.IH" [OF True] by blast
    then show ?thesis by (simp add: pow2_succ)
  next
    case False
    then have "(a', e') = (a, e)"
      using "1.prems"(2) by (subst (asm) scale_down.simps) simp
    then show ?thesis using False "1.prems"(1) by simp
  qed
qed

lemma scale_up_inv:
  "0 < a \<Longrightarrow> a < 9007199254740992 \<Longrightarrow> - 1074 \<le> e \<Longrightarrow> scale_up a e = (a', e') \<Longrightarrow>
   a' * pow2 e' = a * pow2 e \<and> 0 < a' \<and> a' < 9007199254740992 \<and> - 1074 \<le> e' \<and>
   (4503599627370496 \<le> a' \<or> e' = - 1074)"
proof (induction a e rule: scale_up.induct)
  case (1 a e)
  show ?case
  proof (cases "a < 4503599627370496 \<and> - 1074 < e")
    case True
    then have "scale_up (a * 2) (e - 1) = (a', e')"
      using "1.prems"(4) by (subst (asm) scale_up.simps) simp
    moreover have "0 < a * 2" "a * 2 < 9007199254740992" "- 1074 \<le> e - 1"
      using "1.prems"(1) True by simp_all
    ultimately have "a' * pow2 e' = a * 2 * pow2 (e - 1) \<and> 0 < a' \<and>
        a' < 9007199254740992 \<and> - 1074 \<le> e' \<and> (4503599627370496 \<le> a' \<or> e' = - 1074)"
      using "1.IH" [OF True] by blast
    then show ?thesis by (simp add: pow2_pred)
  next
    case False
    then have "scale_up a e = (a, e)"
      by (subst scale_up.simps) auto
    then have "(a', e') = (a, e)"
      using "1.prems"(4) by simp
    then show ?thesis using False "1.prems" by auto
  qed
qed

lemma round_half_even_error: "\<bar>of_int (round_half_even x) - x\<bar> \<le> 1 / 2"
proof -
  have "of_int \<lfloor>x\<rfloor> \<le> x" "x < of_int \<lfloor>x\<rfloor> + 1" by linarith+
  then show ?thesis
    by (auto simp: round_half_even_def Let_def abs_le_iff)
qed

lemma fl_zero: "fl 0 = Finite 0"
  by (simp add: fl_def)

lemma fl_error:
  assumes "fl q = Finite x" and "1 / 2 ^ 1000 \<le> q"
  shows "\<bar>x - q\<bar> \<le> q / 9007199254740992"
proof -
  have qpos: "0 < q"
    using assms(2) by (rule less_le_trans [rotated]) simp
  obtain a1 e1 where sd: "scale_down \<bar>q\<bar> 0 = (a1, e1)" by (cases "scale_down \<bar>q\<bar> 0")
  obtain a2 e where su: "scale_up a1 e1 = (a2, e)" by (cases "scale_up a1 e1")
  from scale_down_inv [OF _ sd] qpos
  have d: "a1 * pow2 e1 = q * pow2 0" "0 < a1" "a1 < 9007199254740992" "0 \<le> e1"
    by simp_all
  from scale_up_inv [OF d(2) d(3) _ su] d(4)
  have u: "a2 * pow2 e = a1 * pow2 e1" "0 < a2" "- 1074 \<le> e"
    "4503599627370496 \<le> a2 \<or> e = - 1074"
    by simp_all
  have q: "q = a2 * pow2 e"
    using u(1) d(1) by (simp add: pow2_def)
  have x: "x = of_int (round_half_even a2) * pow2 e"
    using assms(1) qpos sd su by (simp add: fl_def Let_def split: if_splits)
  have "\<bar>x - q\<bar> = \<bar>of_int (round_half_even a2) - a2\<bar> * pow2 e"
    unfolding x q using pow2_pos [of e]
    by (simp add: abs_mult flip: left_diff_distrib)
  also have "\<dots> \<le> 1 / 2 * pow2 e"
    using round_half_even_error [of a2] pow2_pos [of e]
    by (intro mult_right_mono) simp_all
  finally have err: "\<bar>x - q\<bar> \<le> pow2 e / 2" by simp
  have big: "4503599627370496 \<le> a2"
  proof (rule ccontr)
    assume n: "\<not> 4503599627370496 \<le> a2"
    then have e: "e = - 1074" using u(4) by simp
    have "q < 4503599627370496 * pow2 (- 1074)"
      unfolding q e using n pow2_pos [of "- 1074"] by simp
    also have "\<dots> \<le> 1 / 2 ^ 1000" by (simp add: pow2_def)
    finally show False using assms(2) by simp
  qed
  have "4503599627370496 * pow2 e \<le> a2 * pow2 e"
    using big pow2_pos [of e] by simp
  then have "pow2 e / 2 \<le> q / 9007199254740992"
    unfolding q by simp
  with err show ?thesis by simp
qed

lemma close_to_0: "close_to 0 x x"
  by (simp add: close_to_def)

lemma close_to_nonneg: "0 \<le> x \<Longrightarrow> close_to n x' x \<Longrightarrow> 0 \<le> x'"
proof -
  assume x: "0 \<le> x" and w: "close_to n x' x"
  have "0 \<le> x * (1 - 1 / 9007199254740992) ^ n"
    using x by (intro mult_nonneg_nonneg zero_le_power) simp_all
  then show ?thesis using w by (simp add: close_to_def)
qed

lemma close_to_zero: "close_to n x' 0 \<Longrightarrow> x' = 0"
  by (simp add: close_to_def)

lemma close_to_add: "close_to n x' x \<Longrightarrow> close_to n y' y \<Longrightarrow> close_to n (x' + y') (x + y)"
  by (simp add: close_to_def distrib_right) 

lemma close_to_mul:
  assumes "0 \<le> x" and "0 \<le> y" and "close_to n x' x" and "close_to m y' y"
  shows "close_to (n + m) (x' * y') (x * y)"
proof -
  let ?lo = "1 - 1 / 9007199254740992 :: rat"
  let ?hi = "1 + 1 / 9007199254740992 :: rat"
  have lx: "0 \<le> x * ?lo ^ n" and ly: "0 \<le> y * ?lo ^ m"
    using assms(1,2) by (simp_all)
  have x': "0 \<le> x'" and y': "0 \<le> y'"
    using assms close_to_nonneg by blast+
  have "x * ?lo ^ n * (y * ?lo ^ m) \<le> x' * y'"
    using assms(3,4) lx ly x' y' unfolding close_to_def by (intro mult_mono) simp_all
  moreover have "x' * y' \<le> x * ?hi ^ n * (y * ?hi ^ m)"
    using assms(3,4) x' y' assms(1,2) unfolding close_to_def by (intro mult_mono) simp_all
  ultimately show ?thesis
    by (simp add: close_to_def power_add mult_ac)
qed

lemma close_to_mono:
  assumes "0 \<le> x" and "n \<le> m" and "close_to n x' x"
  shows "close_to m x' x"
proof -
  let ?lo = "1 - 1 / 9007199254740992 :: rat"
  let ?hi = "1 + 1 / 9007199254740992 :: rat"
  have "?lo ^ m \<le> ?lo ^ n" using assms(2) by (intro power_decreasing) simp_all
  then have "x * ?lo ^ m \<le> x * ?lo ^ n" using assms(1) by (rule mult_left_mono)
  moreover have "?hi ^ n \<le> ?hi ^ m" using assms(2) by (intro power_increasing) simp_all
  then have "x * ?hi ^ n \<le> x * ?hi ^ m" using assms(1) by (rule mult_left_mono)
  ultimately show ?thesis using assms(3) by (auto simp: close_to_def)
qed

lemma close_to_step:
  assumes "0 \<le> x" and "close_to n q x" and "\<bar>x' - q\<bar> \<le> q / 9007199254740992"
  shows "close_to (Suc n) x' x"
proof -
  let ?lo = "1 - 1 / 9007199254740992 :: rat"
  let ?hi = "1 + 1 / 9007199254740992 :: rat"
  have "x * ?lo ^ n * ?lo \<le> q * ?lo"
    using assms(2) unfolding close_to_def by (intro mult_right_mono) simp_all
  moreover have e: "x' - q \<le> q / 9007199254740992" "- (x' - q) \<le> q / 9007199254740992"
    using assms(3) by (auto simp only: abs_le_iff)
  have lo: "q * ?lo = q - q / 9007199254740992" by (simp add: right_diff_distrib)
  have hi: "q * ?hi = q + q / 9007199254740992" by (simp add: distrib_left)
  have "q * ?lo \<le> x'" unfolding lo using e by linarith
  moreover have "x' \<le> q * ?hi" unfolding hi using e by linarith
  moreover have "q * ?hi \<le> x * ?hi ^ n * ?hi"
    using assms(2) unfolding close_to_def by (intro mult_right_mono) simp_all
  ultimately show ?thesis by (simp add: close_to_def mult_ac)
qed

lemma close_to_half:
  assumes "0 \<le> x" and "n \<le> 8" and "close_to n q x"
  shows "x / 2 \<le> q"
proof -
  have "close_to 8 q x" using assms by (rule close_to_mono)
  then have "x * (1 - 1 / 9007199254740992) ^ 8 \<le> q" by (simp add: close_to_def)
  moreover have "(1 / 2 :: rat) \<le> (1 - 1 / 9007199254740992) ^ 8"
    by (simp add: power_divide)
  then have "x * (1 / 2) \<le> x * (1 - 1 / 9007199254740992) ^ 8"
    using assms(1) by (rule mult_left_mono)
  ultimately show ?thesis by simp
qed

lemma fl_step:
  assumes "fl q = Finite x'" and "close_to n q x" and "n \<le> 7"
    and "zero_or_above (1 / 2 ^ 900) x"
  shows "close_to (Suc n) x' x"
proof (cases "x = 0")
  case True
  then have "q = 0" using assms(2) close_to_zero by simp
  then have "x' = 0" using assms(1) by (simp add: fl_zero)
  then show ?thesis using True by (simp add: close_to_def)
next
  case False
  then have lb: "1 / 2 ^ 900 \<le> x" using assms(4) by (simp add: zero_or_above_def)
  have x: "0 \<le> x" by (rule order_trans [OF _ lb]) simp
  have h: "x / 2 \<le> q" using x _ assms(2) by (rule close_to_half) (use assms(3) in simp)
  have "1 / 2 ^ 1000 \<le> (1 / 2 ^ 900) / (2::rat)" by simp
  also have "\<dots> \<le> x / 2" using lb by (rule divide_right_mono) simp
  also note h
  finally have "1 / 2 ^ 1000 \<le> q" .
  then have "\<bar>x' - q\<bar> \<le> q / 9007199254740992"
    using assms(1) by (intro fl_error)
  then show ?thesis using x assms(2) by (intro close_to_step)
qed

lemma zoa_mult:
  "0 \<le> l \<Longrightarrow> 0 \<le> l' \<Longrightarrow> zero_or_above l x \<Longrightarrow> zero_or_above l' y \<Longrightarrow>
   zero_or_above (l * l') (x * y)"
  by (auto simp: zero_or_above_def intro: mult_mono)

lemma zoa_add:
  "0 \<le> l \<Longrightarrow> zero_or_above l x \<Longrightarrow> zero_or_above l y \<Longrightarrow> zero_or_above l (x + y)"
  by (auto simp: zero_or_above_def)

lemma zoa_weaken: "l' \<le> l \<Longrightarrow> zero_or_above l x \<Longrightarrow> zero_or_above l' x"
  by (auto simp: zero_or_above_def)

lemma zoa_nonneg: "0 \<le> l \<Longrightarrow> zero_or_above l x \<Longrightarrow> 0 \<le> x"
  by (auto simp: zero_or_above_def)

lemma fadd_FiniteE:
  assumes "fadd x y = Finite t"
  obtains a b where "x = Finite a" "y = Finite b" "fl (a + b) = Finite t"
  using assms by (cases x; cases y) simp_all

lemma fmul_FiniteE:
  assumes "fmul x y = Finite t"
  obtains a b where "x = Finite a" "y = Finite b" "fl (a * b) = Finite t"
  using assms by (cases x; cases y) (simp_all split: if_splits)

lemma div100_FiniteE:
  assumes "div100 x = Finite t"
  obtains a where "x = Finite a" "fl (a / 100) = Finite t"
  using assms by (cases x) simp_all

lemma py_round2_FiniteE:
  assumes "py_round2 x = Finite t"
  obtains a where "x = Finite a"
  using assms by (cases x) simp_all

lemma zoa_pow_weaken:
  "n \<le> m \<Longrightarrow> zero_or_above (1 / 2 ^ n) x \<Longrightarrow> zero_or_above (1 / 2 ^ m) x"
proof -
  assume nm: "n \<le> m" and z: "zero_or_above (1 / 2 ^ n) x"
  have "(2::rat) ^ n \<le> 2 ^ m" using nm by (intro power_increasing) simp_all
  then have "1 / (2::rat) ^ m \<le> 1 / 2 ^ n" by (intro divide_left_mono) simp_all
  then show ?thesis using z by (rule zoa_weaken)
qed

lemma zoa_pow_mult:
  "zero_or_above (1 / 2 ^ n) x \<Longrightarrow> zero_or_above (1 / 2 ^ m) y \<Longrightarrow>
   zero_or_above (1 / 2 ^ (n + m)) (x * y)"
  using zoa_mult [of "1 / 2 ^ n" "1 / 2 ^ m" x y] by (simp add: power_add)

lemma zoa_pow_add:
  "zero_or_above (1 / 2 ^ n) x \<Longrightarrow> zero_or_above (1 / 2 ^ n) y \<Longrightarrow>
   zero_or_above (1 / 2 ^ n) (x + y)"
  by (rule zoa_add) simp_all

lemma zoa_pow_nonneg: "zero_or_above (1 / 2 ^ n) x \<Longrightarrow> 0 \<le> x"
  by (rule zoa_nonneg [of "1 / 2 ^ n"]) simp_all

lemma zoa_percent:
  assumes "zero_or_above (1 / 2 ^ 100) g"
  shows "zero_or_above (1 / 2 ^ 107) (g / 100)"
proof (cases "g = 0")
  case True
  then show ?thesis by (simp add: zero_or_above_def)
next
  case False
  then have "1 / 2 ^ 100 \<le> g" using assms by (simp add: zero_or_above_def)
  then have "(1 / 2 ^ 100) / 100 \<le> g / 100" by (rule divide_right_mono) simp
  moreover have "1 / 2 ^ 107 \<le> (1 / 2 ^ 100) / (100::rat)" by simp
  ultimately have "1 / 2 ^ 107 \<le> g / 100" by (rule order_trans [rotated])
  then show ?thesis by (simp add: zero_or_above_def)
qed


text \<open>
  C8, amended. For finite inputs that are each zero or at least \<open>2 ^ - 100\<close>, and
  whenever the total returned is finite, the total is \<^verbatim>\<open>round(T, 2)\<close> of a float
  \<open>T\<close> that lies within eight float roundings of the product
  \<^verbatim>\<open>(area*rate + material_cost) * (1 + gst/100) * (1 + markup/100)\<close>: between the
  product times \<open>(1 - 2 ^ - 53) ^ 8\<close> and the product times \<open>(1 + 2 ^ - 53) ^ 8\<close>. So
  the total is the product form up to the rounding to two decimals and a relative float
  error below \<open>2 ^ - 49\<close>; it need not be the product rounded to two decimals.
\<close>

theorem compute_quote_close_to_product:
  assumes "area i = Finite a" and "rate_per_sqft i = Finite r"
    and "material_cost i = Finite m" and "gst_percent i = Finite g"
    and "markup_percent i = Finite k"
    and "zero_or_above (1 / 2 ^ 100) a" and "zero_or_above (1 / 2 ^ 100) r"
    and "zero_or_above (1 / 2 ^ 100) m" and "zero_or_above (1 / 2 ^ 100) g"
    and "zero_or_above (1 / 2 ^ 100) k"
    and "total (compute_quote i) = Finite t"
  shows "\<exists>T. total (compute_quote i) = py_round2 (Finite T) \<and>
             close_to 8 T ((a * r + m) * (1 + g / 100) * (1 + k / 100))"
proof -
  let ?s = "fadd (fmul (Finite a) (Finite r)) (Finite m)"
  let ?gs = "fmul ?s (div100 (Finite g))"
  let ?tw = "fadd ?s ?gs"
  let ?mk = "fmul ?tw (div100 (Finite k))"
  have tot: "total (compute_quote i) = py_round2 (fadd ?tw ?mk)"
    using assms(1-5) by (simp add: compute_quote_def Let_def)
  obtain T' where T': "fadd ?tw ?mk = Finite T'"
    using assms(11) unfolding tot by (rule py_round2_FiniteE)
  obtain t' mk' where tw: "?tw = Finite t'" and mk: "?mk = Finite mk'"
    and f8: "fl (t' + mk') = Finite T'"
    using T' by (rule fadd_FiniteE)
  obtain K' where K: "fl (k / 100) = Finite K'" and f7: "fl (t' * K') = Finite mk'"
    using mk unfolding tw by (auto elim!: fmul_FiniteE div100_FiniteE)
  obtain s' gs' where s: "?s = Finite s'" and gs: "?gs = Finite gs'"
    and f5: "fl (s' + gs') = Finite t'"
    using tw by (rule fadd_FiniteE)
  obtain G' where G: "fl (g / 100) = Finite G'" and f4: "fl (s' * G') = Finite gs'"
    using gs unfolding s by (auto elim!: fmul_FiniteE div100_FiniteE)
  obtain p1 where f1: "fl (a * r) = Finite p1" and f2: "fl (p1 + m) = Finite s'"
    using s by (auto elim!: fadd_FiniteE)
  let ?S = "a * r + m"
  let ?T = "?S + ?S * (g / 100)"
  have z_ar: "zero_or_above (1 / 2 ^ 200) (a * r)"
    using zoa_pow_mult [OF assms(6) assms(7)] by simp
  have z_m: "zero_or_above (1 / 2 ^ 200) m"
    using assms(8) by (rule zoa_pow_weaken [rotated]) simp
  have z_S: "zero_or_above (1 / 2 ^ 200) ?S"
    using z_ar z_m by (rule zoa_pow_add)
  have z_G: "zero_or_above (1 / 2 ^ 107) (g / 100)"
    using assms(9) by (rule zoa_percent)
  have z_K: "zero_or_above (1 / 2 ^ 107) (k / 100)"
    using assms(10) by (rule zoa_percent)
  have z_SG: "zero_or_above (1 / 2 ^ 307) (?S * (g / 100))"
    using zoa_pow_mult [OF z_S z_G] by simp
  have z_S': "zero_or_above (1 / 2 ^ 307) ?S"
    using z_S by (rule zoa_pow_weaken [rotated]) simp
  have z_T: "zero_or_above (1 / 2 ^ 307) ?T"
    using z_S' z_SG by (rule zoa_pow_add)
  have z_TK: "zero_or_above (1 / 2 ^ 414) (?T * (k / 100))"
    using zoa_pow_mult [OF z_T z_K] by simp
  have z_T': "zero_or_above (1 / 2 ^ 414) ?T"
    using z_T by (rule zoa_pow_weaken [rotated]) simp
  have z_P: "zero_or_above (1 / 2 ^ 414) (?T + ?T * (k / 100))"
    using z_T' z_TK by (rule zoa_pow_add)
  note w900 = zoa_pow_weaken [where m = 900]
  have n_m: "0 \<le> m" using assms(8) by (rule zoa_pow_nonneg)
  have n_ar: "0 \<le> a * r" using z_ar by (rule zoa_pow_nonneg)
  have n_S: "0 \<le> ?S" using z_S by (rule zoa_pow_nonneg)
  have n_G: "0 \<le> g / 100" using z_G by (rule zoa_pow_nonneg)
  have n_K: "0 \<le> k / 100" using z_K by (rule zoa_pow_nonneg)
  have n_SG: "0 \<le> ?S * (g / 100)" using z_SG by (rule zoa_pow_nonneg)
  have n_T: "0 \<le> ?T" using z_T by (rule zoa_pow_nonneg)
  have n_TK: "0 \<le> ?T * (k / 100)" using z_TK by (rule zoa_pow_nonneg)
  have c1: "close_to 1 p1 (a * r)"
    using fl_step [OF f1 close_to_0 _ w900 [OF _ z_ar]] by simp
  have m1: "close_to 1 m m"
    using n_m _ close_to_0 by (rule close_to_mono) simp
  have "close_to 1 (p1 + m) ?S"
    using c1 m1 by (rule close_to_add)
  then have c2: "close_to 2 s' ?S"
    using fl_step [OF f2 _ _ w900 [OF _ z_S], of 1] by (simp add: numeral_2_eq_2)
  have c3: "close_to 1 G' (g / 100)"
    using fl_step [OF G close_to_0 _ w900 [OF _ z_G]] by simp
  have c6: "close_to 1 K' (k / 100)"
    using fl_step [OF K close_to_0 _ w900 [OF _ z_K]] by simp
  have "close_to 3 (s' * G') (?S * (g / 100))"
    using close_to_mul [OF n_S n_G c2 c3] by simp
  then have c4: "close_to 4 gs' (?S * (g / 100))"
    using fl_step [OF f4 _ _ w900 [OF _ z_SG], of 3] by simp
  have c2': "close_to 4 s' ?S"
    using n_S _ c2 by (rule close_to_mono) simp
  have "close_to 4 (s' + gs') ?T"
    using c2' c4 by (rule close_to_add)
  then have c5: "close_to 5 t' ?T"
    using fl_step [OF f5 _ _ w900 [OF _ z_T], of 4] by simp
  have "close_to 6 (t' * K') (?T * (k / 100))"
    using close_to_mul [OF n_T n_K c5 c6] by simp
  then have c7: "close_to 7 mk' (?T * (k / 100))"
    using fl_step [OF f7 _ _ w900 [OF _ z_TK], of 6] by simp
  have c5': "close_to 7 t' ?T"
    using n_T _ c5 by (rule close_to_mono) simp
  have "close_to 7 (t' + mk') (?T + ?T * (k / 100))"
    using c5' c7 by (rule close_to_add)
  then have c8: "close_to 8 T' (?T + ?T * (k / 100))"
    using fl_step [OF f8 _ _ w900 [OF _ z_P], of 7] by simp
  have eq: "(a * r + m) * (1 + g / 100) * (1 + k / 100) = ?T + ?T * (k / 100)"
    by (simp add: field_simps)
  have "total (compute_quote i) = py_round2 (Finite T')"
    unfolding tot T' ..
  then show ?thesis using c8 unfolding eq by blast
qed

theorem compute_quote_close_to_product_witness:
  "area inputs_spec = Finite 1000 \<and> rate_per_sqft inputs_spec = Finite 1500 \<and>
   material_cost inputs_spec = Finite 50000 \<and> gst_percent inputs_spec = Finite 18 \<and>
   markup_percent inputs_spec = Finite 10 \<and>
   zero_or_above (1 / 2 ^ 100) 1000 \<and> zero_or_above (1 / 2 ^ 100) 1500 \<and>
   zero_or_above (1 / 2 ^ 100) 50000 \<and> zero_or_above (1 / 2 ^ 100) 18 \<and>
   zero_or_above (1 / 2 ^ 100) 10 \<and>
   total (compute_quote inputs_spec) = Finite 2011900 \<and>
   (\<exists>T. total (compute_quote inputs_spec) = py_round2 (Finite T) \<and>
        close_to 8 T ((1000 * 1500 + 50000) * (1 + 18 / 100) * (1 + 10 / 100)))"
proof -
  have i: "area inputs_spec = Finite 1000" "rate_per_sqft inputs_spec = Finite 1500"
    "material_cost inputs_spec = Finite 50000" "gst_percent inputs_spec = Finite 18"
    "markup_percent inputs_spec = Finite 10"
    by (simp_all add: inputs_spec_def)
  have z: "zero_or_above (1 / 2 ^ 100) 1000" "zero_or_above (1 / 2 ^ 100) 1500"
    "zero_or_above (1 / 2 ^ 100) 50000" "zero_or_above (1 / 2 ^ 100) 18"
    "zero_or_above (1 / 2 ^ 100) 10"
    by (simp_all add: zero_or_above_def)
  have t: "total (compute_quote inputs_spec) = Finite 2011900"
    by (simp add: inputs_spec_def compute_quote_def fl_eval)
  show ?thesis
    using compute_quote_close_to_product [OF i z t] i z t by blast
qed

subsection \<open>The store\<close>

lemma is_valid_iff: "is_valid s \<longleftrightarrow> (\<exists>oid. ObjectId_of_str s = Some oid)"
  by (auto simp: is_valid_def ObjectId_of_str_def)

lemma coll_set_coll:
  "coll (set_coll db cn ds) cn' = (if cn' = cn then ds else coll db cn')"
  by (simp add: coll_def set_coll_def update_conv')

lemma coll_more_update [simp]:
  "coll (db\<lparr>next_id := n, clock := c\<rparr>) cn = coll db cn"
  by (simp add: coll_def)

lemma coll_create_document:
  "coll (snd (create_document db cn data)) cn' =
     (if cn' = cn
      then coll db cn @ [AList.update ''_id'' (VOid (new_oid (next_id db)))
                             (AList.update ''created_at'' (VDate (clock db)) data)]
      else coll db cn')"
  by (simp add: create_document_def Let_def coll_set_coll)

lemma fst_create_document:
  "fst (create_document db cn data) = str_of_oid (new_oid (next_id db))"
  by (simp add: create_document_def Let_def)

lemma update_first_no_match:
  "List.find (matches f) ds = None \<Longrightarrow> update_first f u ds = Some (0, ds)"
  by (induction ds) (auto split: if_splits)

lemma update_first_match:
  "List.find (matches f) ds = Some d \<Longrightarrow> apply_update u d = Some d' \<Longrightarrow> matches f d' \<Longrightarrow>
   \<exists>ds'. update_first f u ds = Some (1, ds') \<and> List.find (matches f) ds' = Some d'"
  by (induction ds) (auto split: if_splits)

lemma find_Some_matches: "List.find P xs = Some x \<Longrightarrow> P x"
  by (auto simp: find_Some_iff)

lemma lead_nonempty:
  "find_one db cn (FEq ''_id'' (VOid oid)) = Some d \<Longrightarrow> d \<noteq> []"
  by (auto simp: find_one_def dest!: find_Some_matches)

subsection \<open>Follow-ups\<close>

text \<open>
  C4. A follow-up whose \<^verbatim>\<open>lead_id\<close> is well-formed but is the identifier of no
  lead is answered with 404 ``Lead not found'', and the database is left as it was: no
  follow-up is inserted and no lead is changed.
\<close>

theorem create_followup_missing_lead:
  assumes "ObjectId_of_str (FollowUp.lead_id payload) = Some oid"
    and "find_one db ''lead'' (FEq ''_id'' (VOid oid)) = None"
  shows "is_valid (FollowUp.lead_id payload) \<and>
         create_followup db payload = (Inl (HTTPException 404 ''Lead not found''), db)"
  using assms by (simp add: create_followup_def is_valid_iff)

theorem create_followup_missing_lead_witness:
  "ObjectId_of_str (FollowUp.lead_id (example_followup lead2)) = Some (new_oid 2) \<and>
   find_one example_db ''lead'' (FEq ''_id'' (VOid (new_oid 2))) = None \<and>
   is_valid (FollowUp.lead_id (example_followup lead2)) \<and>
   create_followup example_db (example_followup lead2) =
     (Inl (HTTPException 404 ''Lead not found''), example_db)"
proof -
  have h1: "ObjectId_of_str (FollowUp.lead_id (example_followup lead2)) = Some (new_oid 2)"
    by code_simp
  have h2: "find_one example_db ''lead'' (FEq ''_id'' (VOid (new_oid 2))) = None"
    by code_simp
  show ?thesis
    using create_followup_missing_lead [OF h1 h2] h1 h2 by simp
qed

text \<open>
  C5. A follow-up for an existing lead is answered with the identifier of the new
  follow-up record, and afterwards the lead's \<^verbatim>\<open>follow_up_ids\<close> is the list it was
  with that identifier appended: one more entry, the returned \<^verbatim>\<open>id\<close>. The lead is the
  stored one, so its \<^verbatim>\<open>follow_up_ids\<close> is a list, as the schema declares it.
\<close>

theorem create_followup_appends:
  assumes "ObjectId_of_str (FollowUp.lead_id payload) = Some oid"
    and "find_one db ''lead'' (FEq ''_id'' (VOid oid)) = Some lead"
    and "map_of lead ''follow_up_ids'' = Some (VList ids)"
  shows "\<exists>new_id db' fu.
           create_followup db payload = (Inr new_id, db') \<and>
           new_id = str_of_oid (new_oid (next_id db)) \<and>
           find_one db' ''lead'' (FEq ''_id'' (VOid oid)) =
             Some (AList.update ''follow_up_ids'' (VList (ids @ [VStr new_id])) lead) \<and>
           coll db' ''followup'' = coll db ''followup'' @ [fu] \<and>
           map_of fu ''_id'' = Some (VOid (new_oid (next_id db)))"
proof -
  let ?f = "FEq ''_id'' (VOid oid)"
  let ?new = "str_of_oid (new_oid (next_id db))"
  let ?lead' = "AList.update ''follow_up_ids'' (VList (ids @ [VStr ?new])) lead"
  let ?fu = "AList.update ''_id'' (VOid (new_oid (next_id db)))
         (AList.update ''created_at'' (VDate (clock db)) (dump_FollowUp payload))"
  obtain db1 where cd: "create_document db ''followup'' (dump_FollowUp payload) = (?new, db1)"
    by (simp add: create_document_def Let_def)
  have db1: "db1 = snd (create_document db ''followup'' (dump_FollowUp payload))"
    by (simp add: cd)
  have lead1: "coll db1 ''lead'' = coll db ''lead''"
    unfolding db1 by (simp add: coll_create_document)
  have fu: "coll db1 ''followup'' = coll db ''followup'' @ [?fu]"
    unfolding db1 by (simp add: coll_create_document)
  have valid: "is_valid (FollowUp.lead_id payload)"
    using assms(1) by (auto simp: is_valid_iff)
  have ne: "lead \<noteq> []" using assms(2) by (rule lead_nonempty)
  have found: "List.find (matches ?f) (coll db1 ''lead'') = Some lead"
    using assms(2) by (simp add: find_one_def lead1)
  have m: "matches ?f lead" using found by (rule find_Some_matches)
  have app: "apply_update (UPush ''follow_up_ids'' (VStr ?new)) lead = Some ?lead'"
    using assms(3) by simp
  have m': "matches ?f ?lead'"
    using m by (simp add: update_conv')
  from update_first_match [OF found app m'] obtain ds' where
    uf: "update_first ?f (UPush ''follow_up_ids'' (VStr ?new)) (coll db1 ''lead'') = Some (1, ds')"
    and f': "List.find (matches ?f) ds' = Some ?lead'" by blast
  have uo: "update_one db1 ''lead'' ?f (UPush ''follow_up_ids'' (VStr ?new)) =
              Some (1, set_coll db1 ''lead'' ds')"
    by (simp add: update_one_def uf)
  have res: "create_followup db payload = (Inr ?new, set_coll db1 ''lead'' ds')"
    using valid assms(1,2) ne by (simp add: create_followup_def cd uo)
  have a: "find_one (set_coll db1 ''lead'' ds') ''lead'' ?f = Some ?lead'"
    by (simp add: find_one_def coll_set_coll f')
  have b: "coll (set_coll db1 ''lead'' ds') ''followup'' = coll db ''followup'' @ [?fu]"
    by (simp add: coll_set_coll fu)
  have c: "map_of ?fu ''_id'' = Some (VOid (new_oid (next_id db)))"
    by (simp add: update_conv')
  show ?thesis using res a b c by blast
qed

theorem create_followup_appends_witness:
  "ObjectId_of_str (FollowUp.lead_id (example_followup lead1)) = Some (new_oid 1) \<and>
   find_one example_db ''lead'' (FEq ''_id'' (VOid (new_oid 1))) = Some example_lead \<and>
   map_of example_lead ''follow_up_ids'' = Some (VList []) \<and>
   (\<exists>new_id db' fu.
      create_followup example_db (example_followup lead1) = (Inr new_id, db') \<and>
      new_id = str_of_oid (new_oid (next_id example_db)) \<and>
      find_one db' ''lead'' (FEq ''_id'' (VOid (new_oid 1))) =
        Some (AList.update ''follow_up_ids'' (VList ([] @ [VStr new_id])) example_lead) \<and>
      coll db' ''followup'' = coll example_db ''followup'' @ [fu] \<and>
      map_of fu ''_id'' = Some (VOid (new_oid (next_id example_db))))"
proof -
  have h1: "ObjectId_of_str (FollowUp.lead_id (example_followup lead1)) = Some (new_oid 1)"
    by code_simp
  have h2: "find_one example_db ''lead'' (FEq ''_id'' (VOid (new_oid 1))) = Some example_lead"
    by code_simp
  have h3: "map_of example_lead ''follow_up_ids'' = Some (VList [])"
    by code_simp
  show ?thesis
    using create_followup_appends [OF h1 h2 h3] h1 h2 h3 by blast
qed

subsection \<open>Updating a lead\<close>

lemma dump_LeadUpdate_empty_iff:
  "dump_LeadUpdate p = [] \<longleftrightarrow>
     LeadUpdate.status p = None \<and> LeadUpdate.assigned_agent_id p = None \<and>
     LeadUpdate.assigned_manager_id p = None"
  by (auto simp: dump_LeadUpdate_def split: option.splits)

lemma update_one_no_match:
  "find_one db cn f = None \<Longrightarrow> update_one db cn f u = Some (0, db)"
  by (simp add: update_one_def find_one_def update_first_no_match)

text \<open>
  C6, as stated, fails: a well-formed identifier that matches no lead does not always
  yield 404. With a body that carries no update field the handler returns
  \<^verbatim>\<open>{updated: false}\<close> before it looks the lead up.
\<close>

theorem update_lead_empty_body_no_404:
  "is_valid lead2 \<and> ObjectId_of_str lead2 = Some (new_oid 2) \<and>
   find_one example_db ''lead'' (FEq ''_id'' (VOid (new_oid 2))) = None \<and>
   update_lead example_db lead2 no_update = (Inr False, example_db)"
  by code_simp

text \<open>
  C6, amended. A malformed identifier yields 400. A well-formed identifier with a body
  that carries no update field yields \<^verbatim>\<open>{updated: false}\<close>, whether a lead has that
  identifier or not. A well-formed identifier that matches no lead, with a body that
  carries an update field, yields 404. In all three cases the database is left as it
  was.
\<close>

theorem update_lead_responses:
  "(\<not> is_valid s \<longrightarrow>
      update_lead db s p = (Inl (HTTPException 400 ''Invalid lead id''), db)) \<and>
   (is_valid s \<and> LeadUpdate.status p = None \<and> LeadUpdate.assigned_agent_id p = None \<and>
      LeadUpdate.assigned_manager_id p = None \<longrightarrow>
      update_lead db s p = (Inr False, db)) \<and>
   (ObjectId_of_str s = Some oid \<and> find_one db ''lead'' (FEq ''_id'' (VOid oid)) = None \<and>
      dump_LeadUpdate p \<noteq> [] \<longrightarrow>
      update_lead db s p = (Inl (HTTPException 404 ''Lead not found''), db))"
proof (intro conjI impI)
  assume "\<not> is_valid s"
  then show "update_lead db s p = (Inl (HTTPException 400 ''Invalid lead id''), db)"
    by (simp add: update_lead_def)
next
  assume "is_valid s \<and> LeadUpdate.status p = None \<and> LeadUpdate.assigned_agent_id p = None \<and>
      LeadUpdate.assigned_manager_id p = None"
  then show "update_lead db s p = (Inr False, db)"
    by (simp add: update_lead_def dump_LeadUpdate_empty_iff)
next
  assume a: "ObjectId_of_str s = Some oid \<and>
      find_one db ''lead'' (FEq ''_id'' (VOid oid)) = None \<and> dump_LeadUpdate p \<noteq> []"
  then have "is_valid s" by (auto simp: is_valid_iff)
  with a show "update_lead db s p = (Inl (HTTPException 404 ''Lead not found''), db)"
    by (simp add: update_lead_def update_one_no_match)
qed

theorem update_lead_responses_witness:
  "(\<not> is_valid ''agent-7'' \<and>
      update_lead example_db ''agent-7'' status_update =
        (Inl (HTTPException 400 ''Invalid lead id''), example_db)) \<and>
   (is_valid lead1 \<and> LeadUpdate.status no_update = None \<and>
      LeadUpdate.assigned_agent_id no_update = None \<and>
      LeadUpdate.assigned_manager_id no_update = None \<and>
      update_lead example_db lead1 no_update = (Inr False, example_db)) \<and>
   (ObjectId_of_str lead2 = Some (new_oid 2) \<and>
      find_one example_db ''lead'' (FEq ''_id'' (VOid (new_oid 2))) = None \<and>
      dump_LeadUpdate status_update \<noteq> [] \<and>
      update_lead example_db lead2 status_update =
        (Inl (HTTPException 404 ''Lead not found''), example_db))"
proof -
  have a: "\<not> is_valid ''agent-7''" by code_simp
  have b: "is_valid lead1 \<and> LeadUpdate.status no_update = None \<and>
      LeadUpdate.assigned_agent_id no_update = None \<and>
      LeadUpdate.assigned_manager_id no_update = None" by code_simp
  have c: "ObjectId_of_str lead2 = Some (new_oid 2) \<and>
      find_one example_db ''lead'' (FEq ''_id'' (VOid (new_oid 2))) = None \<and>
      dump_LeadUpdate status_update \<noteq> []" by code_simp
  show ?thesis
    using update_lead_responses [of "''agent-7''" example_db status_update]
      update_lead_responses [of lead1 example_db no_update]
      update_lead_responses [of lead2 example_db status_update "new_oid 2"]
      a b c
    by blast
qed

lemma map_of_set_fields:
  "map_of (fold (\<lambda>(k, v). AList.update k v) (dump_LeadUpdate p) d) k =
     (if k = ''status'' then
        (case LeadUpdate.status p of None \<Rightarrow> map_of d k | Some v \<Rightarrow> Some (VStr v))
      else if k = ''assigned_agent_id'' then
        (case LeadUpdate.assigned_agent_id p of None \<Rightarrow> map_of d k | Some v \<Rightarrow> Some (VStr v))
      else if k = ''assigned_manager_id'' then
        (case LeadUpdate.assigned_manager_id p of None \<Rightarrow> map_of d k | Some v \<Rightarrow> Some (VStr v))
      else map_of d k)"
  by (simp add: dump_LeadUpdate_def update_conv' split: option.splits)

text \<open>
  C10. An update of an existing lead writes exactly the fields among \<^verbatim>\<open>status\<close>,
  \<^verbatim>\<open>assigned_agent_id\<close> and \<^verbatim>\<open>assigned_manager_id\<close> that the body carries with a
  value. A field that is \<open>None\<close> in the body (absent, or sent as \<^verbatim>\<open>null\<close>) keeps its
  stored value, every other field of the lead keeps its value, and no other collection
  changes. The answer is \<^verbatim>\<open>{updated: true}\<close> when the body carries a field and
  \<^verbatim>\<open>{updated: false}\<close> when it carries none.
\<close>

theorem update_lead_frame:
  assumes "ObjectId_of_str s = Some oid"
    and "find_one db ''lead'' (FEq ''_id'' (VOid oid)) = Some lead"
  shows "\<exists>db' lead'.
     update_lead db s p = (Inr (dump_LeadUpdate p \<noteq> []), db') \<and>
     find_one db' ''lead'' (FEq ''_id'' (VOid oid)) = Some lead' \<and>
     map_of lead' ''status'' =
       (case LeadUpdate.status p of None \<Rightarrow> map_of lead ''status'' | Some v \<Rightarrow> Some (VStr v)) \<and>
     map_of lead' ''assigned_agent_id'' =
       (case LeadUpdate.assigned_agent_id p of
          None \<Rightarrow> map_of lead ''assigned_agent_id'' | Some v \<Rightarrow> Some (VStr v)) \<and>
     map_of lead' ''assigned_manager_id'' =
       (case LeadUpdate.assigned_manager_id p of
          None \<Rightarrow> map_of lead ''assigned_manager_id'' | Some v \<Rightarrow> Some (VStr v)) \<and>
     (\<forall>k. k \<notin> {''status'', ''assigned_agent_id'', ''assigned_manager_id''} \<longrightarrow>
          map_of lead' k = map_of lead k) \<and>
     (\<forall>cn. cn \<noteq> ''lead'' \<longrightarrow> coll db' cn = coll db cn)"
proof (cases "dump_LeadUpdate p = []")
  case True
  have valid: "is_valid s" using assms(1) by (auto simp: is_valid_iff)
  have res: "update_lead db s p = (Inr False, db)"
    using valid True by (simp add: update_lead_def)
  have none: "LeadUpdate.status p = None" "LeadUpdate.assigned_agent_id p = None"
    "LeadUpdate.assigned_manager_id p = None"
    using True by (simp_all add: dump_LeadUpdate_empty_iff)
  show ?thesis
    using res assms(2) True none by simp
next
  case False
  let ?f = "FEq ''_id'' (VOid oid)"
  let ?u = "USet (dump_LeadUpdate p)"
  let ?lead' = "fold (\<lambda>(k, v). AList.update k v) (dump_LeadUpdate p) lead"
  have valid: "is_valid s" using assms(1) by (auto simp: is_valid_iff)
  have found: "List.find (matches ?f) (coll db ''lead'') = Some lead"
    using assms(2) by (simp add: find_one_def)
  have m: "matches ?f lead" using found by (rule find_Some_matches)
  have app: "apply_update ?u lead = Some ?lead'" by simp
  have m': "matches ?f ?lead'"
    using m by (simp add: map_of_set_fields)
  from update_first_match [OF found app m'] obtain ds' where
    uf: "update_first ?f ?u (coll db ''lead'') = Some (1, ds')"
    and f': "List.find (matches ?f) ds' = Some ?lead'" by blast
  have uo: "update_one db ''lead'' ?f ?u = Some (1, set_coll db ''lead'' ds')"
    by (simp add: update_one_def uf)
  have res: "update_lead db s p = (Inr True, set_coll db ''lead'' ds')"
    using valid assms(1) False by (simp add: update_lead_def uo)
  have a: "find_one (set_coll db ''lead'' ds') ''lead'' ?f = Some ?lead'"
    by (simp add: find_one_def coll_set_coll f')
  have b: "\<forall>cn. cn \<noteq> ''lead'' \<longrightarrow> coll (set_coll db ''lead'' ds') cn = coll db cn"
    by (simp add: coll_set_coll)
  show ?thesis
    using res a b False by (simp add: map_of_set_fields)
qed

theorem update_lead_frame_witness:
  "ObjectId_of_str lead1 = Some (new_oid 1) \<and>
   find_one example_db ''lead'' (FEq ''_id'' (VOid (new_oid 1))) = Some example_lead \<and>
   (\<exists>db' lead'.
     update_lead example_db lead1 status_update = (Inr (dump_LeadUpdate status_update \<noteq> []), db') \<and>
     find_one db' ''lead'' (FEq ''_id'' (VOid (new_oid 1))) = Some lead' \<and>
     map_of lead' ''status'' =
       (case LeadUpdate.status status_update of
          None \<Rightarrow> map_of example_lead ''status'' | Some v \<Rightarrow> Some (VStr v)) \<and>
     map_of lead' ''assigned_agent_id'' =
       (case LeadUpdate.assigned_agent_id status_update of
          None \<Rightarrow> map_of example_lead ''assigned_agent_id'' | Some v \<Rightarrow> Some (VStr v)) \<and>
     map_of lead' ''assigned_manager_id'' =
       (case LeadUpdate.assigned_manager_id status_update of
          None \<Rightarrow> map_of example_lead ''assigned_manager_id'' | Some v \<Rightarrow> Some (VStr v)) \<and>
     (\<forall>k. k \<notin> {''status'', ''assigned_agent_id'', ''assigned_manager_id''} \<longrightarrow>
          map_of lead' k = map_of example_lead k) \<and>
     (\<forall>cn. cn \<noteq> ''lead'' \<longrightarrow> coll db' cn = coll example_db cn))"
proof -
  have h1: "ObjectId_of_str lead1 = Some (new_oid 1)" by code_simp
  have h2: "find_one example_db ''lead'' (FEq ''_id'' (VOid (new_oid 1))) = Some example_lead"
    by code_simp
  show ?thesis
    using update_lead_frame [OF h1 h2, of status_update] h1 h2 by blast
qed

subsection \<open>Malformed identifiers\<close>

text \<open>
  C2, as stated, fails for \<^verbatim>\<open>GET /api/leads\<close>: the handler does not check
  \<^verbatim>\<open>assigned_to\<close>. The string \<open>''agent-7''\<close> is not the text of an ObjectId, yet
  it goes into the filter as it is and the answer is the lead assigned to it, not 400.
\<close>

theorem list_leads_accepts_malformed:
  "\<not> is_valid ''agent-7'' \<and>
   (case list_leads (\<lambda>v. []) assigned_db (Some ''agent-7'') of
      Inl e \<Rightarrow> False
    | Inr ds \<Rightarrow> map (\<lambda>d. map_of d ''id'') ds = [Some (VStr lead1)])"
  by code_simp

text \<open>
  C2, amended. Every handler that takes a lead identifier (the update of a lead, the
  creation of a follow-up or of a quotation, the follow-ups and the quotations of a lead)
  answers a malformed identifier with 400 ``Invalid lead id'' and leaves the database as
  it was. \<^verbatim>\<open>GET /api/leads\<close> applies no such check to \<^verbatim>\<open>assigned_to\<close>: it never
  fails. A string that is not empty goes into the filter as it is, and the answer is the
  serialised list of the leads whose \<^verbatim>\<open>assigned_agent_id\<close> or
  \<^verbatim>\<open>assigned_manager_id\<close> matches it, newest first; the empty string selects every
  lead.
\<close>

theorem malformed_lead_id_rejected:
  assumes "\<not> is_valid s"
  shows "update_lead db s p = (Inl (HTTPException 400 ''Invalid lead id''), db) \<and>
         create_followup db (fp\<lparr>FollowUp.lead_id := s\<rparr>) =
           (Inl (HTTPException 400 ''Invalid lead id''), db) \<and>
         create_quote db (qp\<lparr>QuotationCreate.lead_id := s\<rparr>) =
           (Inl (HTTPException 400 ''Invalid lead id''), db) \<and>
         list_followups r db s = Inl (HTTPException 400 ''Invalid lead id'') \<and>
         quotes_by_lead r db s = Inl (HTTPException 400 ''Invalid lead id'') \<and>
         list_leads r db (Some s) =
           Inr (map (to_serializable r)
                  (find_sorted db ''lead''
                     (if s = [] then FAll
                      else FOr [FEq ''assigned_agent_id'' (VStr s),
                                FEq ''assigned_manager_id'' (VStr s)])))"
  using assms
  by (simp add: update_lead_def create_followup_def create_quote_def list_followups_def
      quotes_by_lead_def list_leads_def)

theorem malformed_lead_id_rejected_witness:
  "\<not> is_valid ''agent-7'' \<and>
   update_lead assigned_db ''agent-7'' status_update =
     (Inl (HTTPException 400 ''Invalid lead id''), assigned_db) \<and>
   create_followup assigned_db ((example_followup lead1)\<lparr>FollowUp.lead_id := ''agent-7''\<rparr>) =
     (Inl (HTTPException 400 ''Invalid lead id''), assigned_db) \<and>
   create_quote assigned_db ((quote_request inputs_spec)\<lparr>QuotationCreate.lead_id := ''agent-7''\<rparr>) =
     (Inl (HTTPException 400 ''Invalid lead id''), assigned_db) \<and>
   list_followups (\<lambda>v. []) assigned_db ''agent-7'' = Inl (HTTPException 400 ''Invalid lead id'') \<and>
   quotes_by_lead (\<lambda>v. []) assigned_db ''agent-7'' = Inl (HTTPException 400 ''Invalid lead id'') \<and>
   list_leads (\<lambda>v. []) assigned_db (Some ''agent-7'') =
     Inr (map (to_serializable (\<lambda>v. []))
            (find_sorted assigned_db ''lead''
               (FOr [FEq ''assigned_agent_id'' (VStr ''agent-7''),
                     FEq ''assigned_manager_id'' (VStr ''agent-7'')]))) \<and>
   length (find_sorted assigned_db ''lead''
             (FOr [FEq ''assigned_agent_id'' (VStr ''agent-7''),
                   FEq ''assigned_manager_id'' (VStr ''agent-7'')])) = 1"
proof -
  have h: "\<not> is_valid ''agent-7''" by code_simp
  have n: "length (find_sorted assigned_db ''lead''
             (FOr [FEq ''assigned_agent_id'' (VStr ''agent-7''),
                   FEq ''assigned_manager_id'' (VStr ''agent-7'')])) = 1"
    by code_simp
  show ?thesis
    using malformed_lead_id_rejected [OF h, of assigned_db status_update
        "example_followup lead1" "quote_request inputs_spec" "\<lambda>v. []"] h n
    by simp
qed

subsection \<open>Creating a quotation\<close>

lemma create_quote_valid:
  assumes "is_valid (QuotationCreate.lead_id p)"
    and "ge0 (total (compute_quote (inputs p)))"
  shows "fst (create_quote db p) =
           Inr (str_of_oid (new_oid (next_id db)), total (compute_quote (inputs p)))"
    and "\<exists>q. coll (snd (create_quote db p)) ''quotation'' = coll db ''quotation'' @ [q] \<and>
           map_of q ''lead_id'' = Some (VStr (QuotationCreate.lead_id p))"
  using assms
  by (simp_all add: create_quote_def Let_def split_beta fst_create_document
      coll_create_document update_conv' dump_Quotation_def)

lemma total_inputs_exact: "total (compute_quote inputs_exact) = Finite 2906250"
  by (simp add: inputs_exact_def compute_quote_def fl_eval)

text \<open>
  C1 does not hold of the code: \<open>create_quote\<close> checks that the identifier is
  well-formed and never looks the lead up. In \<open>example_db\<close> no lead has the identifier
  \<open>lead9\<close> and there is no quotation; the request is answered with an identifier and
  the total, and afterwards the collection holds one quotation, for that lead.
\<close>

theorem create_quote_missing_lead_persists:
  "is_valid lead9 \<and> ObjectId_of_str lead9 = Some (new_oid 9) \<and>
   find_one example_db ''lead'' (FEq ''_id'' (VOid (new_oid 9))) = None \<and>
   fst (create_quote example_db (quote_request inputs_exact)) =
     Inr (''000000000000000000000002'', Finite 2906250) \<and>
   coll example_db ''quotation'' = [] \<and>
   (\<exists>q. coll (snd (create_quote example_db (quote_request inputs_exact))) ''quotation'' = [q] \<and>
        map_of q ''lead_id'' = Some (VStr lead9))"
proof -
  have v: "is_valid (QuotationCreate.lead_id (quote_request inputs_exact))" by code_simp
  have i: "inputs (quote_request inputs_exact) = inputs_exact"
    by (simp add: quote_request_def)
  have l: "QuotationCreate.lead_id (quote_request inputs_exact) = lead9"
    by (simp add: quote_request_def)
  have g: "ge0 (total (compute_quote (inputs (quote_request inputs_exact))))"
    by (simp add: i total_inputs_exact)
  have a: "is_valid lead9" by code_simp
  have b: "ObjectId_of_str lead9 = Some (new_oid 9)" by code_simp
  have c: "find_one example_db ''lead'' (FEq ''_id'' (VOid (new_oid 9))) = None" by code_simp
  have d: "str_of_oid (new_oid (next_id example_db)) = ''000000000000000000000002''"
    by code_simp
  have e: "coll example_db ''quotation'' = []" by code_simp
  show ?thesis
    using create_quote_valid [OF v g, of example_db] a b c
    by (simp add: i l d e total_inputs_exact)
qed

subsection \<open>Serialised records\<close>

text \<open>
  \<open>to_serializable\<close> converts the ObjectIds at the first level of a record and those
  that are elements of a first-level list, and nothing deeper: on \<open>nested_doc\<close>, a
  document that no endpoint writes, the ObjectId inside the sub-document and the one
  inside the inner list are returned as they are.
\<close>

theorem to_serializable_keeps_nested_oid:
  "distinct (map fst nested_doc) \<and>
   map_of (to_serializable (\<lambda>v. []) nested_doc) ''owner'' =
     Some (VDict [(''ref'', VOid (new_oid 2))]) \<and>
   map_of (to_serializable (\<lambda>v. []) nested_doc) ''history'' =
     Some (VList [VList [VOid (new_oid 3)]]) \<and>
   has_oid (VDict [(''ref'', VOid (new_oid 2))]) \<and>
   has_oid (VList [VList [VOid (new_oid 3)]])"
  by code_simp














subsection \<open>The records of the API\<close>




lemma no_oid_strs: "\<not> has_oid (VList (map VStr xs))"
  by simp





lemma api_store_more [simp]:
  "api_store (db\<lparr>next_id := n, clock := t\<rparr>) = api_store db"
  by (simp add: api_store_def)




















lemma coll_create_quote:
  "cn \<noteq> ''quotation'' \<Longrightarrow> coll (snd (create_quote db p)) cn = coll db cn"
  by (simp add: create_quote_def Let_def split_beta coll_create_document)

lemma find_sorted_create_quote:
  "cn \<noteq> ''quotation'' \<Longrightarrow> find_sorted (snd (create_quote db p)) cn f = find_sorted db cn f"
  by (simp add: find_sorted_def coll_create_quote)




end
